theory Spec2Isabelle
  imports Main "HOL-Library.Word"
begin

unbundle bit_operations_syntax

section \<open>Exception.h: grades crossed with tags\<close>

text \<open>
  The header declares a family of classes, all of them related by \<^emph>\<open>virtual\<close>
  inheritance.  An exception kind \<open>Exc\<close> (a grade, or an instance of the
  \<open>synthetic_exception\<close> template) always comes with two member types,
  \<open>Exc::any_tagged_type\<close> and \<open>Exc::tagged_type<tag>\<close>, which the header also
  names \<open>AnyTagged<Exc>\<close> and \<open>Tagged<Exc, tag>\<close>.

  \<open>exc\<close> enumerates the exception kinds; \<open>cls\<close> enumerates the classes that the
  header builds from them, with the caller's tag types as the parameter \<open>'tag\<close>.
  The \<open>unique_handle\<close> of \<open>synthetic_exception\<close> is a struct name and is kept as
  a string.  The families the header derives further down (named resources, ranges,
  allocation, finished) are instances of that template, or classes with one as their
  base; \<open>bases<...>\<close> is the helper that inherits virtually from each of its arguments.
\<close>

datatype access = Public | Protected | Private

datatype exc =
    Exception
  | Condition
  | Notification
  | Error
  | CriticalError
  | Violation
  | synthetic_exception string exc "exc list"

datatype 'tag cls =
    Plain exc
  | AnyTagged exc
  | Tagged exc 'tag
  | bases "'tag cls list"
  | ErrorBridgeInterface

text \<open>
  The base-specifier list of every class, in declaration order.  Each base is virtual
  in the source, so a class occurs at most once as a subobject of any object.
\<close>

fun direct_bases :: "'tag cls \<Rightarrow> (access \<times> 'tag cls) list" where
  "direct_bases (bases bs) = map (Pair Public) bs"
| "direct_bases (Plain (synthetic_exception u g bs)) =
     [(Public, bases (Plain g # map Plain bs))]"
| "direct_bases (AnyTagged (synthetic_exception u g bs)) =
     [(Public, bases (Plain (synthetic_exception u g bs) # AnyTagged g # map AnyTagged bs))]"
| "direct_bases (Tagged (synthetic_exception u g bs) t) =
     [(Public, bases (Plain (synthetic_exception u g bs) # AnyTagged (synthetic_exception u g bs)
                       # Tagged g t # map (\<lambda>b. Tagged b t) bs))]"
| "direct_bases (Plain Exception) = []"
| "direct_bases (AnyTagged Exception) = [(Public, Plain Exception)]"
| "direct_bases (Tagged Exception t) = [(Public, Plain Exception), (Public, AnyTagged Exception)]"
| "direct_bases (Plain Condition) = [(Public, Plain Exception)]"
| "direct_bases (AnyTagged Condition) = [(Public, bases [Plain Condition, AnyTagged Exception])]"
| "direct_bases (Tagged Condition t) = [(Public, bases [AnyTagged Condition, Tagged Exception t])]"
| "direct_bases (Plain Notification) = [(Public, Plain Exception)]"
| "direct_bases (AnyTagged Notification) = [(Public, bases [Plain Notification, AnyTagged Exception])]"
| "direct_bases (Tagged Notification t) = [(Public, bases [AnyTagged Notification, Tagged Exception t])]"
| "direct_bases ErrorBridgeInterface = []"
| "direct_bases (Plain Error) = [(Public, bases [Plain Exception]), (Private, ErrorBridgeInterface)]"
| "direct_bases (AnyTagged Error) = [(Public, bases [Plain Error, AnyTagged Exception])]"
| "direct_bases (Tagged Error t) = [(Public, bases [AnyTagged Error, Tagged Exception t])]"
| "direct_bases (Plain CriticalError) = [(Public, bases [Plain Exception])]"
| "direct_bases (AnyTagged CriticalError) = [(Public, bases [Plain CriticalError, AnyTagged Exception])]"
| "direct_bases (Tagged CriticalError t) = [(Public, bases [AnyTagged CriticalError, Tagged Exception t])]"
| "direct_bases (Plain Violation) = [(Public, bases [Plain Exception])]"
| "direct_bases (AnyTagged Violation) = [(Public, bases [Plain Violation, AnyTagged Exception])]"
| "direct_bases (Tagged Violation t) = [(Public, bases [AnyTagged Violation, Tagged Exception t])]"

text \<open>A measure under which every direct base is smaller than the class that names it.\<close>

fun erank :: "exc \<Rightarrow> nat" where
  "erank Exception = 0"
| "erank (synthetic_exception u g bs) = Suc (erank g + sum_list (map erank bs))"
| "erank _ = 1"

fun rank :: "'tag cls \<Rightarrow> nat" where
  "rank (Plain e) = 4 * erank e"
| "rank (AnyTagged e) = 4 * erank e + 2"
| "rank (Tagged e t) = 4 * erank e + 4"
| "rank (bases bs) = Suc (Max (insert 0 (rank ` set bs)))"
| "rank ErrorBridgeInterface = 0"

lemma erank_member: "b \<in> set bs \<Longrightarrow> erank b \<le> sum_list (map erank bs)"
  by (induction bs) auto

lemma direct_bases_rank: "(a, b) \<in> set (direct_bases c) \<Longrightarrow> rank b < rank c"
proof (cases c)
  case (Plain e)
  assume "(a, b) \<in> set (direct_bases c)"
  with Plain show ?thesis
    by (cases e) (auto dest: erank_member)
next
  case (AnyTagged e)
  assume "(a, b) \<in> set (direct_bases c)"
  with AnyTagged show ?thesis
    by (cases e) (auto dest: erank_member)
next
  case (Tagged e t)
  assume "(a, b) \<in> set (direct_bases c)"
  with Tagged show ?thesis
    by (cases e) (auto dest: erank_member)
next
  case (bases bs)
  assume "(a, b) \<in> set (direct_bases c)"
  with bases show ?thesis
    by (auto simp: less_Suc_eq_le)
next
  case ErrorBridgeInterface
  assume "(a, b) \<in> set (direct_bases c)"
  with ErrorBridgeInterface show ?thesis by simp
qed

text \<open>
  All classes reached from \<open>c\<close> through base specifiers whose access satisfies \<open>ok\<close>,
  \<open>c\<close> itself first.
\<close>

function bases_via :: "(access \<Rightarrow> bool) \<Rightarrow> 'tag cls \<Rightarrow> 'tag cls list" where
  "bases_via ok c = c # concat (map (bases_via ok) [b. (a, b) \<leftarrow> direct_bases c, ok a])"
  by pat_completeness auto
termination
  by (relation "measure (\<lambda>(ok, c). rank c)") (auto dest: direct_bases_rank)

declare bases_via.simps [simp del]

text \<open>
  \<open>Exception::is_a<Target>()\<close> is \<open>dynamic_cast<const Target *>(this)\<close> converted to
  \<open>bool\<close>.  For an object whose most derived class is \<open>dyn\<close>, the cast yields a
  non-null pointer exactly when \<open>Target\<close> is \<open>dyn\<close> itself or an unambiguous public
  base of it; with virtual bases only, every base is unambiguous.
\<close>

definition is_a :: "'tag cls \<Rightarrow> 'tag cls \<Rightarrow> bool" where
  "is_a Target dyn = (Target \<in> set (bases_via (\<lambda>a. a = Public) dyn))"

text \<open>
  A handler \<open>catch( const Handler & )\<close> is entered for a thrown object of class
  \<open>thrown\<close> under the same condition.
\<close>

definition caught_by :: "'tag cls \<Rightarrow> 'tag cls \<Rightarrow> bool" where
  "caught_by Handler thrown = (Handler \<in> set (bases_via (\<lambda>a. a = Public) thrown))"

text \<open>
  \<open>tag()\<close> is pure virtual in \<open>Exception::any_tagged_type\<close> and overridden, \<open>final\<close>, in
  \<open>Exception::tagged_type<Tag>\<close>, where it returns \<open>typeid( std::type_identity<Tag> )\<close>.
  A call on an object of class \<open>dyn\<close> runs the overrider of its one
  \<open>Exception::tagged_type<Tag>\<close> base, whatever the access of the path to it.  With no
  such base there is no overrider, and with two for different tags the class is
  ill-formed: both are \<open>None\<close>.  Two \<open>std::type_index\<close> values are equal exactly when
  they name the same type.
\<close>

datatype 'tag type_index = typeid_type_identity 'tag

definition tag :: "'tag cls \<Rightarrow> 'tag type_index option" where
  "tag dyn = (case remdups [t. Tagged Exception t \<leftarrow> bases_via (\<lambda>_. True) dyn] of
                [t] \<Rightarrow> Some (typeid_type_identity t)
              | _ \<Rightarrow> None)"

text \<open>The grades below the root \<open>Exception\<close>, in the order the header introduces them.\<close>

definition grades :: "exc list" where
  "grades = [Condition, Notification, Error, CriticalError, Violation]"

subsection \<open>Reachability in the lattice\<close>

lemma bases_via_self: "c \<in> set (bases_via ok c)"
  by (subst bases_via.simps) simp

lemma bases_via_step:
  "(a, b) \<in> set (direct_bases c) \<Longrightarrow> ok a \<Longrightarrow> x \<in> set (bases_via ok b)
   \<Longrightarrow> x \<in> set (bases_via ok c)"
  by (subst bases_via.simps) force

lemma bases_via_cases:
  "x \<in> set (bases_via ok c) \<Longrightarrow>
   x = c \<or> (\<exists>a d. (a, d) \<in> set (direct_bases c) \<and> ok a \<and> x \<in> set (bases_via ok d))"
  by (subst (asm) bases_via.simps) auto

lemma bases_via_trans:
  "b \<in> set (bases_via ok c) \<Longrightarrow> x \<in> set (bases_via ok b) \<Longrightarrow> x \<in> set (bases_via ok c)"
proof (induction ok c rule: bases_via.induct)
  case (1 ok c)
  from bases_via_cases [OF "1.prems"(1)] show ?case
  proof
    assume "b = c"
    with "1.prems"(2) show ?thesis by simp
  next
    assume "\<exists>a d. (a, d) \<in> set (direct_bases c) \<and> ok a \<and> b \<in> set (bases_via ok d)"
    then obtain a d where d: "(a, d) \<in> set (direct_bases c)" "ok a" "b \<in> set (bases_via ok d)"
      by blast
    have "x \<in> set (bases_via ok d)"
      using "1.IH" [of d] d "1.prems"(2) by force
    with d show ?thesis by (blast intro: bases_via_step)
  qed
qed

lemma bases_via_in_bases:
  "b \<in> set bs \<Longrightarrow> x \<in> set (bases_via ok b) \<Longrightarrow> ok Public
   \<Longrightarrow> x \<in> set (bases_via ok (bases bs))"
  by (rule bases_via_step [where a = Public and b = b]) auto

lemma bases_via_through_bases:
  assumes "(Public, bases bs) \<in> set (direct_bases c)" and "b \<in> set bs" and "ok Public"
    and "x \<in> set (bases_via ok b)"
  shows "x \<in> set (bases_via ok c)"
  using assms by (blast intro: bases_via_step bases_via_in_bases)

lemma base_direct:
  "(Public, b) \<in> set (direct_bases c) \<Longrightarrow> ok Public \<Longrightarrow> b \<in> set (bases_via ok c)"
  by (rule bases_via_step [where a = Public and b = b]) (simp_all add: bases_via_self)

lemma base_direct2:
  "(Public, bases bs) \<in> set (direct_bases c) \<Longrightarrow> b \<in> set bs \<Longrightarrow> ok Public
   \<Longrightarrow> b \<in> set (bases_via ok c)"
  by (rule bases_via_through_bases [where b = b and bs = bs]) (simp_all add: bases_via_self)

lemma Plain_Exception_base: "ok Public \<Longrightarrow> Plain Exception \<in> set (bases_via ok (Plain e))"
proof (induction e)
  case (synthetic_exception u g bs)
  show ?case
    by (rule bases_via_through_bases [where b = "Plain g" and bs = "Plain g # map Plain bs"])
       (simp_all add: synthetic_exception)
qed (simp_all add: bases_via.simps)

lemma Plain_base_of_AnyTagged: "ok Public \<Longrightarrow> Plain e \<in> set (bases_via ok (AnyTagged e))"
  by (cases e; (rule base_direct, simp, assumption | rule base_direct2, simp, simp, assumption))

lemma AnyTagged_base_of_Tagged: "ok Public \<Longrightarrow> AnyTagged e \<in> set (bases_via ok (Tagged e t))"
  by (cases e; (rule base_direct, simp, assumption | rule base_direct2, simp, simp, assumption))

lemma Tagged_Exception_base:
  "ok Public \<Longrightarrow> Tagged Exception t \<in> set (bases_via ok (Tagged e t))"
proof (induction e)
  case (synthetic_exception u g bs)
  show ?case
    by (rule bases_via_through_bases [where b = "Tagged g t"
          and bs = "Plain (synthetic_exception u g bs) # AnyTagged (synthetic_exception u g bs)
                    # Tagged g t # map (\<lambda>b. Tagged b t) bs"])
       (simp_all add: synthetic_exception)
qed (simp_all add: bases_via.simps)

lemma AnyTagged_Exception_base:
  "ok Public \<Longrightarrow> AnyTagged Exception \<in> set (bases_via ok (AnyTagged e))"
proof (induction e)
  case (synthetic_exception u g bs)
  show ?case
    by (rule bases_via_through_bases [where b = "AnyTagged g"
          and bs = "Plain (synthetic_exception u g bs) # AnyTagged g # map AnyTagged bs"])
       (simp_all add: synthetic_exception)
qed (simp_all add: bases_via.simps)

lemma public_bases_of_Tagged:
  fixes e :: exc and t :: 'tag
  defines "pub \<equiv> set (bases_via (\<lambda>a. a = Public) (Tagged e t))"
  shows "Plain e \<in> pub" and "AnyTagged e \<in> pub" and "Tagged Exception t \<in> pub"
    and "AnyTagged Exception \<in> pub" and "Plain Exception \<in> pub"
proof -
  let ?ok = "\<lambda>a. a = Public"
  show any: "AnyTagged e \<in> pub"
    unfolding pub_def by (simp add: AnyTagged_base_of_Tagged)
  show plain: "Plain e \<in> pub"
    unfolding pub_def
    by (rule bases_via_trans [OF any [unfolded pub_def]]) (simp add: Plain_base_of_AnyTagged)
  show "Tagged Exception t \<in> pub"
    unfolding pub_def by (simp add: Tagged_Exception_base)
  show "AnyTagged Exception \<in> pub"
    unfolding pub_def
    by (rule bases_via_trans [OF any [unfolded pub_def]]) (simp add: AnyTagged_Exception_base)
  show "Plain Exception \<in> pub"
    unfolding pub_def
    by (rule bases_via_trans [OF plain [unfolded pub_def]]) (simp add: Plain_Exception_base)
qed

lemma grades_cases:
  "G \<in> set grades \<Longrightarrow>
   G = Condition \<or> G = Notification \<or> G = Error \<or> G = CriticalError \<or> G = Violation"
  by (simp add: grades_def)

lemma grade_is_a_iff:
  assumes "G \<in> set grades" and "G' \<in> set grades"
  shows "is_a (Plain G') (Plain G) = (G' = G) \<and>
         is_a (Plain G') (AnyTagged G) = (G' = G) \<and>
         is_a (Plain G') (Tagged G t) = (G' = G)"
  using grades_cases [OF assms(1)] grades_cases [OF assms(2)]
  by (elim disjE; simp add: is_a_def bases_via.simps)

lemma tagged_is_a_iff:
  assumes "G \<in> set grades"
  shows "is_a (Tagged Exception t') (Tagged G t) = (t' = t)"
  using grades_cases [OF assms]
  by (elim disjE; simp add: is_a_def bases_via.simps)

lemma tag_of_grade:
  assumes "G \<in> set grades"
  shows "tag (Tagged G t) = Some (typeid_type_identity t)"
  using grades_cases [OF assms]
  by (elim disjE; simp add: tag_def bases_via.simps)

subsection \<open>Claims about the lattice\<close>

text \<open>
  C2, as the code has it.  The grades are sibling classes under \<open>Exception\<close> and are not
  ordered by inheritance: an object whose class is \<open>CriticalError\<close> or \<open>Violation\<close>, or
  the any-tagged or a tagged variant of one of them, answers \<open>is_a<Error>()\<close> with false.
  It answers true for its own grade and for \<open>Exception\<close>.
\<close>

theorem higher_grades_are_not_Errors:
  assumes "G = CriticalError \<or> G = Violation"
    and "dyn = Plain G \<or> dyn = AnyTagged G \<or> dyn = Tagged G t"
  shows "\<not> is_a (Plain Error) dyn \<and> is_a (Plain G) dyn \<and> is_a (Plain Exception) dyn"
  using assms by (elim disjE; simp add: is_a_def bases_via.simps)

theorem higher_grades_are_not_Errors_witness:
  "(Violation = CriticalError \<or> Violation = Violation) \<and>
   \<not> is_a (Plain Error) (Tagged Violation ''myTag'') \<and>
   is_a (Plain Violation) (Tagged Violation ''myTag'') \<and>
   is_a (Plain Exception) (Tagged Violation ''myTag'')"
  using higher_grades_are_not_Errors [of Violation "Tagged Violation ''myTag''" "''myTag''"]
  by simp

text \<open>
  C2, as the claim states it, fails: an object of class \<open>CriticalError\<close> is not accepted
  by the test for \<open>Error\<close>.
\<close>

theorem CriticalError_fails_Error_test:
  "is_a (Plain Error) (Plain CriticalError :: string cls) = False"
  by (simp add: is_a_def bases_via.simps)

text \<open>
  C3.  For each of the five grades \<open>G\<close> and every tag \<open>T\<close>, an object of class
  \<open>G::tagged_type<T>\<close> answers true to \<open>is_a<G>()\<close>, \<open>is_a<G::any_tagged_type>()\<close>,
  \<open>is_a<Exception::tagged_type<T>>()\<close> and \<open>is_a<Exception>()\<close>.  The two axes are
  independent: among the grades the object is exactly a \<open>G\<close>, whatever \<open>T\<close> is, and among
  the tags it is tagged exactly \<open>T\<close>, whatever \<open>G\<close> is.
\<close>

theorem tagged_type_answers_both_axes:
  assumes "G \<in> set grades"
  shows "is_a (Plain G) (Tagged G T) \<and>
         is_a (AnyTagged G) (Tagged G T) \<and>
         is_a (Tagged Exception T) (Tagged G T) \<and>
         is_a (Plain Exception) (Tagged G T) \<and>
         (G' \<in> set grades \<longrightarrow> is_a (Plain G') (Tagged G T) = (G' = G)) \<and>
         is_a (Tagged Exception T') (Tagged G T) = (T' = T)"
  using assms public_bases_of_Tagged [where e = G and t = T] grade_is_a_iff [of G G' T]
    tagged_is_a_iff [of G T' T]
  by (auto simp: is_a_def)

theorem tagged_type_answers_both_axes_witness:
  "Condition \<in> set grades \<and> Error \<in> set grades \<and>
   is_a (Plain Condition) (Tagged Condition ''myTag'') \<and>
   is_a (AnyTagged Condition) (Tagged Condition ''myTag'') \<and>
   is_a (Tagged Exception ''myTag'') (Tagged Condition ''myTag'') \<and>
   is_a (Plain Exception) (Tagged Condition ''myTag'') \<and>
   \<not> is_a (Plain Error) (Tagged Condition ''myTag'') \<and>
   \<not> is_a (Tagged Exception ''other'') (Tagged Condition ''myTag'')"
  using tagged_type_answers_both_axes [of Condition "''myTag''" Error "''other''"]
  by (simp add: grades_def)

text \<open>
  C5.  One class per (kind, tag) pair is enough.  For every exception kind \<open>e\<close> (the root,
  a grade or an instance of \<open>synthetic_exception\<close>) and every tag \<open>t\<close>, an object of the
  one class \<open>Tagged<e, t>\<close> is tested and caught as \<open>e\<close>, as \<open>AnyTagged<e>\<close>, as
  \<open>Tagged<Exception, t>\<close>, as \<open>AnyTaggedException\<close> and as \<open>Exception\<close>.
\<close>

theorem one_tagged_class_per_pair:
  "is_a (Plain e) (Tagged e t) \<and> caught_by (Plain e) (Tagged e t) \<and>
   is_a (AnyTagged e) (Tagged e t) \<and> caught_by (AnyTagged e) (Tagged e t) \<and>
   is_a (Tagged Exception t) (Tagged e t) \<and> caught_by (Tagged Exception t) (Tagged e t) \<and>
   is_a (AnyTagged Exception) (Tagged e t) \<and> caught_by (AnyTagged Exception) (Tagged e t) \<and>
   is_a (Plain Exception) (Tagged e t) \<and> caught_by (Plain Exception) (Tagged e t)"
  using public_bases_of_Tagged [where e = e and t = t] by (simp add: is_a_def caught_by_def)

text \<open>
  C6.  Every class of the lattice has \<open>Exception\<close> as a public base: the class of each
  exception kind (the grades among them), its any-tagged class and each of its tagged
  classes.  So \<open>is_a<Exception>()\<close> is true of all their objects, and a handler for
  \<open>Exception\<close> catches them.
\<close>

theorem everything_is_an_Exception:
  fixes e :: exc and t :: 'tag
  shows "is_a (Plain Exception) (Plain e :: 'tag cls) \<and>
         caught_by (Plain Exception) (Plain e :: 'tag cls) \<and>
         is_a (Plain Exception) (AnyTagged e :: 'tag cls) \<and>
         caught_by (Plain Exception) (AnyTagged e :: 'tag cls) \<and>
         is_a (Plain Exception) (Tagged e t) \<and>
         caught_by (Plain Exception) (Tagged e t)"
proof -
  let ?ok = "\<lambda>a. a = Public"
  have plain: "Plain Exception \<in> set (bases_via ?ok (Plain e :: 'tag cls))"
    by (simp add: Plain_Exception_base)
  have "Plain e \<in> set (bases_via ?ok (AnyTagged e :: 'tag cls))"
    by (simp add: Plain_base_of_AnyTagged)
  then have any: "Plain Exception \<in> set (bases_via ?ok (AnyTagged e :: 'tag cls))"
    using plain by (rule bases_via_trans)
  have tagged: "Plain Exception \<in> set (bases_via ?ok (Tagged e t))"
    by (rule public_bases_of_Tagged)
  from plain any tagged show ?thesis
    by (simp add: is_a_def caught_by_def)
qed

text \<open>
  C7.  For grades \<open>G1\<close>, \<open>G2\<close> and tags \<open>T1\<close>, \<open>T2\<close>: \<open>tag()\<close> of an object of
  \<open>G1::tagged_type<T1>\<close> is the type index of \<open>std::type_identity<T1>\<close>, and it equals
  \<open>tag()\<close> of an object of \<open>G2::tagged_type<T2>\<close> exactly when \<open>T1\<close> and \<open>T2\<close> are the same
  tag, whatever the grades.
\<close>

theorem tag_depends_on_tag_only:
  assumes "G1 \<in> set grades" and "G2 \<in> set grades"
  shows "tag (Tagged G1 T1) = Some (typeid_type_identity T1) \<and>
         (tag (Tagged G1 T1) = tag (Tagged G2 T2)) = (T1 = T2)"
  using assms by (simp add: tag_of_grade)

theorem tag_depends_on_tag_only_witness:
  "Error \<in> set grades \<and> Violation \<in> set grades \<and>
   tag (Tagged Error ''myTag'') = Some (typeid_type_identity ''myTag'') \<and>
   tag (Tagged Error ''myTag'') \<noteq> tag (Tagged Violation ''other'')"
  using tag_depends_on_tag_only [of Error Violation "''myTag''" "''other''"]
  by (auto simp: grades_def)

section \<open>string_algorithms.h: parseRange\<close>

text \<open>
  \<open>parseRange\<close> throws \<open>std::runtime_error\<close> itself; \<open>boost::lexical_cast\<close> throws
  \<open>boost::bad_lexical_cast\<close>, which is not a \<open>std::runtime_error\<close>.
\<close>

datatype parse_error = runtime_error string | bad_lexical_cast

text \<open>
  \<open>std::iota( begin( rv ), end( rv ), value )\<close>: each element in turn receives
  \<open>value\<close>, which is then incremented.
\<close>

fun iota :: "'a::len word list \<Rightarrow> 'a word \<Rightarrow> 'a word list" where
  "iota [] v = []"
| "iota (x # xs) v = v # iota xs (v + 1)"

text \<open>
  The second argument of a call of \<open>split\<close>, as the caller writes it: a character
  literal such as \<open>':'\<close>, or a string literal such as \<open>"-"\<close>.
\<close>

datatype argument = char_literal char | string_literal string

text \<open>
  The header declares one function of this name,
  \<open>split( const std::string &s, char token )\<close>, and the sources contain no other.  A call
  with a character binds to it.  A string literal is an array of \<open>const char\<close>, which
  does not convert to \<open>char\<close>: such a call has no viable function and is ill-formed,
  which is \<open>None\<close>.  The definition of \<open>split\<close> is not among the sources, so the
  function itself is an argument.
\<close>

definition call_split ::
  "(string \<Rightarrow> char \<Rightarrow> string list) \<Rightarrow> string \<Rightarrow> argument \<Rightarrow> string list option" where
  "call_split split s token =
     (case token of
        char_literal c \<Rightarrow> Some (split s c)
      | string_literal l \<Rightarrow> None)"

text \<open>
  The body of \<open>parseRange<T>\<close> for an integral type \<open>T\<close> of \<open>LENGTH('a)\<close> bits, with the
  second argument of its call of \<open>split\<close> as the parameter \<open>token\<close>.  The outer \<open>None\<close>
  says that the call of \<open>split\<close> is ill-formed, so that the template cannot be
  instantiated and there is no run that returns or throws.  \<open>boost::lexical_cast<T>\<close> is
  an argument, with \<open>None\<close> for a thrown \<open>bad_lexical_cast\<close>.  The source reads
  \<open>tokens.at( 0 )\<close> for \<open>low\<close> and again for \<open>high\<close>, and \<open>rv{ high - low + 1 }\<close> is a
  braced initialiser: a vector holding that one value.
\<close>

definition parseRange_with ::
  "argument \<Rightarrow> (string \<Rightarrow> char \<Rightarrow> string list) \<Rightarrow> (string \<Rightarrow> 'a::len word option) \<Rightarrow> string
   \<Rightarrow> (parse_error + 'a word list) option" where
  "parseRange_with token split lexical_cast s =
     (case call_split split s token of
        None \<Rightarrow> None
      | Some tokens \<Rightarrow>
          Some
            (if tokens = [] \<or> length tokens > 2
             then Inl (runtime_error ''Expected an integer or a range.'')
             else if length tokens = 1 \<or> tokens ! 0 = []
             then (case lexical_cast s of
                     None \<Rightarrow> Inl bad_lexical_cast
                   | Some v \<Rightarrow> Inr [v])
             else (case lexical_cast (tokens ! 0) of
                     None \<Rightarrow> Inl bad_lexical_cast
                   | Some low \<Rightarrow>
                       (case lexical_cast (tokens ! 0) of
                          None \<Rightarrow> Inl bad_lexical_cast
                        | Some high \<Rightarrow> Inr (iota [high - low + 1] low)))))"

text \<open>
  \<open>parseRange\<close> as the source has it: line 83 reads \<open>split( s, "-" )\<close>, with a string
  literal.  The other callers of \<open>split\<close>, in the console's reading of its colour
  variable, write character literals (\<open>':'\<close> and \<open>'='\<close>).
\<close>

definition parseRange ::
  "(string \<Rightarrow> char \<Rightarrow> string list) \<Rightarrow> (string \<Rightarrow> 'a::len word option) \<Rightarrow> string
   \<Rightarrow> (parse_error + 'a word list) option" where
  "parseRange split lexical_cast s =
     parseRange_with (string_literal ''-'') split lexical_cast s"

text \<open>
  Modelled from the spec: \<open>split\<close>, declared at string_algorithms.h:74 and defined in a
  source file that is not available.  The spec calls it string splitting; the model cuts
  the text at every occurrence of the token character and keeps empty pieces, so a text
  with \<open>n\<close> occurrences yields \<open>n + 1\<close> tokens.
\<close>

fun split_string :: "string \<Rightarrow> char \<Rightarrow> string list" where
  "split_string [] token = [[]]"
| "split_string (c # cs) token =
     (if c = token then [] # split_string cs token
      else (case split_string cs token of
              [] \<Rightarrow> [[c]]
            | t # ts \<Rightarrow> (c # t) # ts))"

text \<open>
  \<open>boost::lexical_cast<T>\<close> on a signed integral \<open>T\<close>, for evaluating on concrete texts:
  the whole text has to be a decimal numeral with an optional sign whose value fits
  \<open>T\<close>.
\<close>

fun decimal :: "string \<Rightarrow> nat \<Rightarrow> nat option" where
  "decimal [] acc = Some acc"
| "decimal (c # cs) acc =
     (if 48 \<le> (of_char c :: nat) \<and> (of_char c :: nat) \<le> 57
      then decimal cs (10 * acc + (of_char c - 48))
      else None)"

definition lexical_cast_signed :: "string \<Rightarrow> 'a::len word option" where
  "lexical_cast_signed s =
     (case s of
        [] \<Rightarrow> None
      | c # cs \<Rightarrow>
          if c = CHR ''-''
          then (if cs = [] then None
                else (case decimal cs 0 of
                        None \<Rightarrow> None
                      | Some n \<Rightarrow> if n \<le> 2 ^ (LENGTH('a) - 1) then Some (- of_nat n) else None))
          else (let ds = (if c = CHR ''+'' then cs else s) in
                if ds = [] then None
                else (case decimal ds 0 of
                        None \<Rightarrow> None
                      | Some n \<Rightarrow> if n < 2 ^ (LENGTH('a) - 1) then Some (of_nat n) else None)))"

lemma parseRange_ill_formed: "parseRange split lexical_cast s = None"
  by (simp add: parseRange_def parseRange_with_def call_split_def)

lemma parseRange_with_string_literal:
  "parseRange_with (string_literal l) split lexical_cast s = None"
  by (simp add: parseRange_with_def call_split_def)

lemma parseRange_with_two_tokens:
  assumes "split s c = [a, b]" and "a \<noteq> []" and "lexical_cast a = Some low"
  shows "parseRange_with (char_literal c) split lexical_cast s = Some (Inr [low])"
  using assms by (simp add: parseRange_with_def call_split_def)

lemma parseRange_with_singleton:
  "parseRange_with token split lexical_cast s = Some (Inr xs) \<Longrightarrow> length xs = 1"
  by (auto simp: parseRange_with_def call_split_def Let_def
           split: if_splits option.splits argument.splits)

lemma parseRange_with_char_runtime_error_iff:
  "(parseRange_with (char_literal c) split lexical_cast s
      = Some (Inl (runtime_error ''Expected an integer or a range.'')))
     = (split s c = [] \<or> 2 < length (split s c)) \<and>
   (\<exists>msg. parseRange_with (char_literal c) split lexical_cast s = Some (Inl (runtime_error msg)))
     = (split s c = [] \<or> 2 < length (split s c))"
  by (auto simp: parseRange_with_def call_split_def Let_def split: option.splits)

subsection \<open>Claims about parseRange\<close>

text \<open>
  C1.  The range text \<open>3-7\<close> stands for the five values 3, 4, 5, 6, 7.  The code does not
  produce them.  As written, \<open>parseRange<int>\<close> cannot be instantiated, because line 83
  hands a string literal to \<open>split\<close>.  With the character \<open>'-'\<close> in its place the
  function returns the one value 3: \<open>high\<close> is read from the first token like \<open>low\<close>,
  and the braced initialiser makes a vector of one element, which \<open>std::iota\<close> then sets
  to \<open>low\<close>.  Under either reading the result is not the five values.
\<close>

theorem parseRange_3_7:
  "(parseRange split_string lexical_cast_signed ''3-7'' :: (parse_error + 32 word list) option)
     = None \<and>
   parseRange_with (char_literal CHR ''-'') split_string lexical_cast_signed ''3-7''
     = Some (Inr [3 :: 32 word]) \<and>
   parseRange split_string lexical_cast_signed ''3-7'' \<noteq> Some (Inr [3, 4, 5, 6, 7 :: 32 word]) \<and>
   parseRange_with (char_literal CHR ''-'') split_string lexical_cast_signed ''3-7''
     \<noteq> Some (Inr [3, 4, 5, 6, 7 :: 32 word])"
  by (simp add: parseRange_def parseRange_with_def call_split_def lexical_cast_signed_def)

text \<open>
  C9.  Splitting the text \<open>1-2-3\<close> at \<open>-\<close> yields three tokens, so \<open>parseRange\<close> ought
  to end in \<open>std::runtime_error\<close> with the message \<open>Expected an integer or a range.\<close>
  The code as written does not: its call \<open>split( s, "-" )\<close> is ill-formed, so no
  instantiation of \<open>parseRange\<close> exists to throw anything.  Only with the character
  \<open>'-'\<close> in place of the string literal is the error branch taken, and then exactly
  when the tokens are none or more than two (lemma
  \<open>parseRange_with_char_runtime_error_iff\<close>).
\<close>

theorem parseRange_1_2_3:
  "2 < length (split_string ''1-2-3'' CHR ''-'') \<and>
   (parseRange split_string lexical_cast_signed ''1-2-3'' :: (parse_error + 32 word list) option)
     = None \<and>
   (parseRange split_string lexical_cast_signed ''1-2-3'' :: (parse_error + 32 word list) option)
     \<noteq> Some (Inl (runtime_error ''Expected an integer or a range.'')) \<and>
   (parseRange_with (char_literal CHR ''-'') split_string lexical_cast_signed ''1-2-3''
      :: (parse_error + 32 word list) option)
     = Some (Inl (runtime_error ''Expected an integer or a range.''))"
  by (simp add: parseRange_def parseRange_with_def call_split_def)

section \<open>TableTest.h: running a table of cases\<close>

text \<open>
  A \<open>TestDescription\<close> is the tuple of a comment, the arguments and the expected result.
\<close>

type_synonym ('args, 'ret) TestDescription = "string \<times> 'args \<times> 'ret"

text \<open>
  The manipulators \<open>C::red\<close>, \<open>C::green\<close> and \<open>C::normal\<close> come from the console
  library; what they write to the stream is given by this record.
\<close>

record console_C =
  red :: string
  green :: string
  normal :: string

text \<open>
  The loop of \<open>TableTest::Cases::operator()\<close>.  The state is \<open>failureCount\<close> (a C++
  \<open>int\<close>), the text written to \<open>std::cout\<close> so far, and whatever state the tested
  function reads and writes: \<open>function\<close> takes that state and returns it changed.
  What \<open>printDebugging\<close> writes for a mismatch depends on how the result type is
  stringified and is an argument.  \<open>std::endl\<close> is the newline character.  The
  constant \<open>C::debugCaseTypes\<close> is false, so nothing goes to \<open>std::cerr\<close>, and
  \<open>breakpoint()\<close> is empty.
\<close>

fun run_tests ::
  "console_C \<Rightarrow> ('args \<Rightarrow> 'w \<Rightarrow> 'ret \<times> 'w) \<Rightarrow> ('ret \<Rightarrow> 'ret \<Rightarrow> string)
   \<Rightarrow> ('args, 'ret) TestDescription list \<Rightarrow> 32 word \<times> string \<times> 'w
   \<Rightarrow> 32 word \<times> string \<times> 'w" where
  "run_tests C function printDebugging [] (failureCount, cout, w) = (failureCount, cout, w)"
| "run_tests C function printDebugging ((comment, params, expected) # tests)
     (failureCount, cout, w) =
     (let (witness, w') = function params w;
          result = (witness = expected)
      in if \<not> result
         then run_tests C function printDebugging tests
                (failureCount + 1,
                 cout @ red C @ ''  FAILURE'' @ normal C @ '': '' @ comment @ [CHR 0x0A]
                      @ printDebugging witness expected,
                 w')
         else run_tests C function printDebugging tests
                (failureCount,
                 cout @ green C @ ''  SUCCESS'' @ normal C @ '': '' @ comment @ [CHR 0x0A],
                 w'))"

definition Cases_call ::
  "console_C \<Rightarrow> ('args \<Rightarrow> 'w \<Rightarrow> 'ret \<times> 'w) \<Rightarrow> ('ret \<Rightarrow> 'ret \<Rightarrow> string)
   \<Rightarrow> ('args, 'ret) TestDescription list \<Rightarrow> string \<Rightarrow> 'w \<Rightarrow> 32 word \<times> string \<times> 'w" where
  "Cases_call C function printDebugging tests cout w =
     run_tests C function printDebugging tests (0, cout, w)"

text \<open>
  A function without effects, made to record the arguments of every call in the order the
  calls happen.
\<close>

definition traced :: "('args \<Rightarrow> 'ret) \<Rightarrow> 'args \<Rightarrow> 'args list \<Rightarrow> 'ret \<times> 'args list" where
  "traced f params calls = (f params, calls @ [params])"

definition fails :: "('args \<Rightarrow> 'ret) \<Rightarrow> ('args, 'ret) TestDescription \<Rightarrow> bool" where
  "fails f test = (case test of (comment, params, expected) \<Rightarrow> f params \<noteq> expected)"

lemma run_tests_traced_count:
  "fst (run_tests C (traced f) dbg tests (n, out, calls)) = n + of_nat (length (filter (fails f) tests))"
  by (induction tests arbitrary: n out calls) (auto simp: traced_def fails_def Let_def)

lemma run_tests_traced_calls:
  "snd (snd (run_tests C (traced f) dbg tests (n, out, calls))) = calls @ map (\<lambda>t. fst (snd t)) tests"
  by (induction tests arbitrary: n out calls) (auto simp: traced_def Let_def)

lemma sint_of_nat_32: "k < 2 ^ 31 \<Longrightarrow> sint (of_nat k :: 32 word) = int k"
  by (simp add: signed_of_nat signed_take_bit_int_eq_self)

lemma of_nat_32_eq_0: "k < 2 ^ 31 \<Longrightarrow> (of_nat k :: 32 word) = 0 \<longleftrightarrow> k = 0"
  by (auto simp: word_of_nat_eq_0_iff dest: dvd_imp_le)

lemma no_fails_iff:
  "length (filter (fails f) tests) = 0 \<longleftrightarrow>
   (\<forall>(comment, params, expected) \<in> set tests. f params = expected)"
  by (auto simp: fails_def filter_empty_conv)

subsection \<open>Claim about the table test\<close>

text \<open>
  C4.  For a function \<open>f\<close> and a table \<open>tests\<close>, \<open>TableTest::Cases::operator()\<close> calls
  \<open>f\<close> once on the arguments of each case, in the order of the table, and returns the
  number of cases whose computed result differs from the expected one; so it returns 0
  exactly when every case passes.  \<open>failureCount\<close> is an \<open>int\<close>: the table is taken
  to have fewer than \<open>2 ^ 31\<close> cases, so that the count cannot overflow.
\<close>

theorem Cases_call_counts_failures:
  assumes "length tests < 2 ^ 31"
  shows "case Cases_call C (traced f) printDebugging tests cout [] of
           (failureCount, cout', calls) \<Rightarrow>
             sint failureCount = int (length (filter (fails f) tests)) \<and>
             calls = map (\<lambda>(comment, params, expected). params) tests \<and>
             (failureCount = 0) = (\<forall>(comment, params, expected) \<in> set tests. f params = expected)"
proof -
  let ?k = "length (filter (fails f) tests)"
  obtain n out calls where r: "Cases_call C (traced f) printDebugging tests cout [] = (n, out, calls)"
    by (cases "Cases_call C (traced f) printDebugging tests cout []") auto
  have k: "?k < 2 ^ 31"
    by (rule le_less_trans [OF length_filter_le assms])
  have n: "n = of_nat ?k"
    using r run_tests_traced_count [of C f printDebugging tests 0 cout "[]"]
    by (simp add: Cases_call_def)
  have c: "calls = map (\<lambda>(comment, params, expected). params) tests"
    using r run_tests_traced_calls [of C f printDebugging tests 0 cout "[]"]
    by (simp add: Cases_call_def case_prod_unfold)
  have z: "(n = 0) = (\<forall>(comment, params, expected) \<in> set tests. f params = expected)"
    using n of_nat_32_eq_0 [OF k] no_fails_iff [of f tests] by simp
  show ?thesis
    using n c z sint_of_nat_32 [OF k] by (simp add: r)
qed

theorem Cases_call_counts_failures_witness:
  "length [(''one'', 1, 2), (''two'', 2, 4), (''three'', 3, 4 :: int)] < (2 :: nat) ^ 31 \<and>
   (case Cases_call \<lparr>red = ''<r>'', green = ''<g>'', normal = ''<n>''\<rparr> (traced (\<lambda>x. x + 1))
           (\<lambda>witness expected. [])
           [(''one'', 1, 2), (''two'', 2, 4), (''three'', 3, 4 :: int)] [] [] of
      (failureCount, cout', calls) \<Rightarrow>
        sint failureCount = 1 \<and> calls = [1, 2, 3] \<and> failureCount \<noteq> 0)"
  using Cases_call_counts_failures
    [where tests = "[(''one'', 1, 2), (''two'', 2, 4), (''three'', 3, 4 :: int)]"
       and f = "\<lambda>x. x + 1" and C = "\<lparr>red = ''<r>'', green = ''<g>'', normal = ''<n>''\<rparr>"
       and printDebugging = "\<lambda>witness expected. []" and cout = "[]"]
  by (simp add: fails_def split: prod.splits)

section \<open>Console.cc: terminal modes and screen size\<close>

datatype ConsoleMode = cooked | raw | noblock

text \<open>
  \<open>struct termios\<close> and \<open>struct winsize\<close> of the C library.  \<open>c_cc\<close> is the array of
  control characters.
\<close>

record termios =
  c_iflag :: "32 word"
  c_oflag :: "32 word"
  c_cflag :: "32 word"
  c_lflag :: "32 word"
  c_cc :: "8 word list"

record winsize =
  ws_row :: "16 word"
  ws_col :: "16 word"
  ws_xpixel :: "16 word"
  ws_ypixel :: "16 word"

text \<open>
  \<open>Console::Impl\<close>.  The head of \<open>modeStack\<close> is the top of the \<open>std::stack\<close>.  The
  members \<open>filebuf\<close> and \<open>stream\<close> carry the output and are left out: the functions
  below do not write.
\<close>

record Impl =
  fd :: int
  modeStack :: "(termios \<times> ConsoleMode) list"
  mode :: ConsoleMode
  cachedScreenWidth :: "int option"

text \<open>
  The operating system as the console sees it: whether a descriptor is a terminal, the
  attributes of each terminal (\<open>None\<close> where \<open>tcgetattr\<close> fails), whether \<open>tcsetattr\<close>
  succeeds on a descriptor, and the return code and window size that
  \<open>ioctl( fd, TIOCGWINSZ, &ws )\<close> delivers.
\<close>

record os =
  isatty :: "int \<Rightarrow> bool"
  attributes :: "int \<Rightarrow> termios option"
  settable :: "int \<Rightarrow> bool"
  ioctl_TIOCGWINSZ :: "int \<Rightarrow> int \<times> winsize"

text \<open>
  \<open>tcgetattr( d, &now )\<close>: \<open>None\<close> stands for the return code -1, \<open>Some now\<close> for
  success with the attributes stored.  \<open>tcsetattr( d, TCSAFLUSH, &t )\<close> returns its
  code together with the system after the call.
\<close>

definition tcgetattr :: "os \<Rightarrow> int \<Rightarrow> termios option" where
  "tcgetattr sys d = attributes sys d"

definition tcsetattr :: "os \<Rightarrow> int \<Rightarrow> termios \<Rightarrow> int \<times> os" where
  "tcsetattr sys d t =
     (if settable sys d then (0, sys\<lparr>attributes := (attributes sys)(d \<mapsto> t)\<rparr>) else (-1, sys))"

text \<open>The flag bits and indices of \<open><termios.h>\<close>, with their values on Linux.\<close>

definition BRKINT :: "32 word" where "BRKINT = 0x2"
definition ICRNL :: "32 word" where "ICRNL = 0x100"
definition INPCK :: "32 word" where "INPCK = 0x10"
definition ISTRIP :: "32 word" where "ISTRIP = 0x20"
definition IXON :: "32 word" where "IXON = 0x400"
definition OPOST :: "32 word" where "OPOST = 0x1"
definition CS8 :: "32 word" where "CS8 = 0x30"
definition ECHO :: "32 word" where "ECHO = 0x8"
definition ICANON :: "32 word" where "ICANON = 0x2"
definition IEXTEN :: "32 word" where "IEXTEN = 0x8000"
definition ISIG :: "32 word" where "ISIG = 0x1"
definition VMIN :: nat where "VMIN = 6"
definition VTIME :: nat where "VTIME = 5"

datatype screen_error = BadScreenStateError | UnknownScreenError

definition getMode :: "Impl \<Rightarrow> ConsoleMode" where
  "getMode pimpl = mode pimpl"

text \<open>
  \<open>popTermMode\<close>.  The result of \<open>tcsetattr\<close> is ignored.  \<open>top()\<close> of an empty stack
  has no defined behaviour; the model answers \<open>None\<close> there.
\<close>

definition popTermMode :: "Impl \<Rightarrow> os \<Rightarrow> (Impl \<times> os) option" where
  "popTermMode pimpl sys =
     (case modeStack pimpl of
        [] \<Rightarrow> None
      | (first, second) # rest \<Rightarrow>
          (let (ec, sys') = tcsetattr sys (fd pimpl) first
           in Some (pimpl\<lparr>mode := second, modeStack := rest\<rparr>, sys')))"

text \<open>
  \<open>setRawModeWithMin\<close>.  The local \<open>next\<close> is never initialised before its flags are
  masked, so its starting contents are an argument, \<open>indeterminate\<close>.  The source masks
  \<open>c_lflag\<close> with the logical negation \<open>!( ECHO | ICANON | IEXTEN | ISIG )\<close>, which is 0.
\<close>

definition setRawModeWithMin ::
  "termios \<Rightarrow> int \<Rightarrow> int \<Rightarrow> os \<Rightarrow> screen_error + (termios \<times> os)" where
  "setRawModeWithMin indeterminate d vmin sys =
     (case tcgetattr sys d of
        None \<Rightarrow> Inl UnknownScreenError
      | Some now \<Rightarrow>
            (let next = indeterminate
                   \<lparr>c_iflag := c_iflag indeterminate AND NOT (BRKINT OR ICRNL OR INPCK OR ISTRIP OR IXON),
                    c_oflag := c_oflag indeterminate AND NOT OPOST,
                    c_cflag := c_cflag indeterminate OR CS8,
                    c_lflag := c_lflag indeterminate
                                 AND (if (ECHO OR ICANON OR IEXTEN OR ISIG) = 0 then 1 else 0),
                    c_cc := (c_cc indeterminate)[VMIN := word_of_int vmin, VTIME := 0]\<rparr>;
                 (ec', sys') = tcsetattr sys d next
             in if ec' \<noteq> 0 then Inl UnknownScreenError else Inr (now, sys')))"

definition setRaw :: "termios \<Rightarrow> Impl \<Rightarrow> os \<Rightarrow> screen_error + (Impl \<times> os)" where
  "setRaw indeterminate pimpl sys =
     (case setRawModeWithMin indeterminate (fd pimpl) 1 sys of
        Inl e \<Rightarrow> Inl e
      | Inr (old, sys') \<Rightarrow>
          Inr (pimpl\<lparr>modeStack := (old, mode pimpl) # modeStack pimpl, mode := raw\<rparr>, sys'))"

definition setNoblock :: "termios \<Rightarrow> Impl \<Rightarrow> os \<Rightarrow> screen_error + (Impl \<times> os)" where
  "setNoblock indeterminate pimpl sys =
     (case setRawModeWithMin indeterminate (fd pimpl) 0 sys of
        Inl e \<Rightarrow> Inl e
      | Inr (old, sys') \<Rightarrow>
          Inr (pimpl\<lparr>modeStack := (old, mode pimpl) # modeStack pimpl, mode := raw\<rparr>, sys'))"

text \<open>
  Modelled from the spec: \<open>ScreenSize\<close>, declared in Console.h, which is not available.
  It has a row count and a column count, in this order; the source reads its member
  \<open>columns\<close>.
\<close>

record ScreenSize =
  rows :: int
  columns :: int

text \<open>
  \<open>getScreenSize\<close> is a function-try-block.  \<open>getScreenSize_body\<close> is the block,
  \<open>getScreenSize\<close> adds the handler for \<open>UnknownScreenError\<close>.  The window size is read
  only when the return code is not -1.
\<close>

definition getScreenSize_body :: "Impl \<Rightarrow> os \<Rightarrow> screen_error + ScreenSize" where
  "getScreenSize_body pimpl sys =
     (if \<not> isatty sys (fd pimpl) then Inl UnknownScreenError
      else
        (let (ec, ws) = ioctl_TIOCGWINSZ sys (fd pimpl)
         in if ec = -1 \<or> ws_col ws = 0 then Inl UnknownScreenError
            else Inr \<lparr>rows = uint (ws_row ws), columns = uint (ws_col ws)\<rparr>))"

definition getScreenSize :: "Impl \<Rightarrow> os \<Rightarrow> screen_error + ScreenSize" where
  "getScreenSize pimpl sys =
     (case getScreenSize_body pimpl sys of
        Inl UnknownScreenError \<Rightarrow> Inr \<lparr>rows = 24, columns = 80\<rparr>
      | Inl e \<Rightarrow> Inl e
      | Inr screen \<Rightarrow> Inr screen)"

lemma setRawModeWithMin_returns:
  "setRawModeWithMin indeterminate d vmin sys = Inr (now, sys') \<Longrightarrow>
   attributes sys d = Some now \<and> settable sys d"
  by (auto simp: setRawModeWithMin_def tcgetattr_def tcsetattr_def Let_def
           split: option.splits if_splits prod.splits)

lemma setRaw_returns_iff:
  "(\<exists>r. setRaw indeterminate pimpl sys = Inr r) =
   (attributes sys (fd pimpl) \<noteq> None \<and> settable sys (fd pimpl))"
  by (auto simp: setRaw_def setRawModeWithMin_def tcgetattr_def tcsetattr_def Let_def
           split: option.splits if_splits prod.splits sum.splits)

lemma setRaw_throws_only_UnknownScreenError:
  "setRaw indeterminate pimpl sys = Inl e \<Longrightarrow> e = UnknownScreenError"
  by (auto simp: setRaw_def setRawModeWithMin_def tcgetattr_def tcsetattr_def Let_def
           split: option.splits if_splits prod.splits sum.splits)

subsection \<open>Claims about the console\<close>

text \<open>
  C10.  Whatever the mode of the console before, when \<open>setRaw()\<close> returns it has pushed
  the pair of the terminal attributes read by \<open>tcgetattr\<close> and the previous mode, and set
  the mode to \<open>raw\<close>; \<open>popTermMode()\<close> called next hands those attributes to
  \<open>tcsetattr\<close>, makes the mode observed by \<open>getMode()\<close> what it was before
  \<open>setRaw()\<close>, and leaves the stack as it was.
\<close>

theorem setRaw_popTermMode_restores_mode:
  assumes "setRaw indeterminate pimpl sys = Inr (pimpl', sys')"
  shows "\<exists>old pimpl'' sys''.
           attributes sys (fd pimpl) = Some old \<and>
           modeStack pimpl' = (old, getMode pimpl) # modeStack pimpl \<and>
           getMode pimpl' = raw \<and>
           popTermMode pimpl' sys' = Some (pimpl'', sys'') \<and>
           sys'' = snd (tcsetattr sys' (fd pimpl) old) \<and>
           getMode pimpl'' = getMode pimpl \<and>
           modeStack pimpl'' = modeStack pimpl"
proof -
  from assms obtain old where
    m: "setRawModeWithMin indeterminate (fd pimpl) 1 sys = Inr (old, sys')" and
    p: "pimpl' = pimpl\<lparr>modeStack := (old, mode pimpl) # modeStack pimpl, mode := raw\<rparr>"
    by (auto simp: setRaw_def split: sum.splits prod.splits)
  from setRawModeWithMin_returns [OF m] have a: "attributes sys (fd pimpl) = Some old"
    by simp
  show ?thesis
    using a p by (simp add: popTermMode_def getMode_def case_prod_unfold)
qed

theorem setRaw_popTermMode_restores_mode_witness:
  "case setRaw \<lparr>c_iflag = 0x2D02, c_oflag = 5, c_cflag = 0xBF, c_lflag = 0x8A3B, c_cc = replicate 32 0\<rparr>
          \<lparr>fd = 1, modeStack = [], mode = noblock, cachedScreenWidth = None\<rparr>
          \<lparr>isatty = (\<lambda>d. True),
           attributes = (\<lambda>d. Some \<lparr>c_iflag = 0x500, c_oflag = 5, c_cflag = 0xBF,
                                      c_lflag = 0x8A3B, c_cc = replicate 32 0\<rparr>),
           settable = (\<lambda>d. True),
           ioctl_TIOCGWINSZ = (\<lambda>d. (0, \<lparr>ws_row = 50, ws_col = 132, ws_xpixel = 0, ws_ypixel = 0\<rparr>))\<rparr> of
     Inl e \<Rightarrow> False
   | Inr (pimpl', sys') \<Rightarrow>
       getMode pimpl' = raw \<and>
       (case popTermMode pimpl' sys' of
          None \<Rightarrow> False
        | Some (pimpl'', sys'') \<Rightarrow> getMode pimpl'' = noblock \<and> modeStack pimpl'' = [])"
proof -
  let ?ind = "\<lparr>c_iflag = 0x2D02, c_oflag = 5, c_cflag = 0xBF, c_lflag = 0x8A3B, c_cc = replicate 32 0\<rparr>"
  let ?c = "\<lparr>fd = 1, modeStack = [], mode = noblock, cachedScreenWidth = None\<rparr>"
  let ?sys = "\<lparr>isatty = (\<lambda>d. True),
           attributes = (\<lambda>d. Some \<lparr>c_iflag = 0x500, c_oflag = 5, c_cflag = 0xBF,
                                      c_lflag = 0x8A3B, c_cc = replicate 32 0\<rparr>),
           settable = (\<lambda>d. True),
           ioctl_TIOCGWINSZ = (\<lambda>d. (0, \<lparr>ws_row = 50, ws_col = 132, ws_xpixel = 0, ws_ypixel = 0\<rparr>))\<rparr>"
  have "\<exists>r. setRaw ?ind ?c ?sys = Inr r"
    by (rule setRaw_returns_iff [THEN iffD2]) simp
  then obtain pimpl' sys' where r: "setRaw ?ind ?c ?sys = Inr (pimpl', sys')"
    by auto
  from setRaw_popTermMode_restores_mode [OF r] show ?thesis
    by (auto simp: r getMode_def)
qed

text \<open>
  C8.  \<open>getScreenSize\<close> always returns a size and never ends in an exception: 24 rows
  and 80 columns when the descriptor is not a terminal, when the \<open>ioctl\<close> returns -1 or
  when it reports zero columns, and the reported rows and columns otherwise.
\<close>

theorem getScreenSize_total:
  "getScreenSize pimpl sys =
     Inr (if \<not> isatty sys (fd pimpl) \<or> fst (ioctl_TIOCGWINSZ sys (fd pimpl)) = -1
             \<or> ws_col (snd (ioctl_TIOCGWINSZ sys (fd pimpl))) = 0
          then \<lparr>rows = 24, columns = 80\<rparr>
          else \<lparr>rows = uint (ws_row (snd (ioctl_TIOCGWINSZ sys (fd pimpl)))),
                columns = uint (ws_col (snd (ioctl_TIOCGWINSZ sys (fd pimpl))))\<rparr>)"
  by (simp add: getScreenSize_def getScreenSize_body_def case_prod_unfold Let_def)

theorem getScreenSize_total_witness:
  "getScreenSize \<lparr>fd = 1, modeStack = [], mode = cooked, cachedScreenWidth = None\<rparr>
     \<lparr>isatty = (\<lambda>d. True), attributes = (\<lambda>d. None), settable = (\<lambda>d. False),
      ioctl_TIOCGWINSZ =
        (\<lambda>d. (0, \<lparr>ws_row = 50, ws_col = 132, ws_xpixel = 0, ws_ypixel = 0\<rparr>))\<rparr>
     = Inr \<lparr>rows = 50, columns = 132\<rparr> \<and>
   getScreenSize \<lparr>fd = 1, modeStack = [], mode = cooked, cachedScreenWidth = None\<rparr>
     \<lparr>isatty = (\<lambda>d. False), attributes = (\<lambda>d. None), settable = (\<lambda>d. False),
      ioctl_TIOCGWINSZ =
        (\<lambda>d. (0, \<lparr>ws_row = 50, ws_col = 132, ws_xpixel = 0, ws_ypixel = 0\<rparr>))\<rparr>
     = Inr \<lparr>rows = 24, columns = 80\<rparr>"
  using getScreenSize_total
    [of "\<lparr>fd = 1, modeStack = [], mode = cooked, cachedScreenWidth = None\<rparr>"
        "\<lparr>isatty = (\<lambda>d. True), attributes = (\<lambda>d. None), settable = (\<lambda>d. False),
          ioctl_TIOCGWINSZ =
            (\<lambda>d. (0, \<lparr>ws_row = 50, ws_col = 132, ws_xpixel = 0, ws_ypixel = 0\<rparr>))\<rparr>"]
    getScreenSize_total
    [of "\<lparr>fd = 1, modeStack = [], mode = cooked, cachedScreenWidth = None\<rparr>"
        "\<lparr>isatty = (\<lambda>d. False), attributes = (\<lambda>d. None), settable = (\<lambda>d. False),
          ioctl_TIOCGWINSZ =
            (\<lambda>d. (0, \<lparr>ws_row = 50, ws_col = 132, ws_xpixel = 0, ws_ypixel = 0\<rparr>))\<rparr>"]
  by simp

end
